theory Spec2Isabelle
  imports Main
begin

section \<open>The message envelope of \<open>Source/Common/MessageEvent.h\<close>\<close>

subsection \<open>Pointers, heaps and the payload type parameter\<close>

text \<open>
  A \<open>boost::shared_ptr\<close> is the address of the object it refers to, or \<open>None\<close> when it
  is empty. Two pointers are the same reference exactly when they hold the same address.
  Messages live in a heap indexed by address; a new object takes the next free address.
  Objects are never freed in the model: a shared pointer keeps its object alive.
\<close>

type_synonym addr = nat
type_synonym ptr = "addr option"
type_synonym 'a heap = "'a list"

fun load :: "'a heap \<Rightarrow> ptr \<Rightarrow> 'a option" where
  "load h None = None"
| "load h (Some a) = (if a < length h then Some (h ! a) else None)"

text \<open>
  \<open>StringMap\<close> is declared in \<open>Declare.h\<close>, which is not among the sources; it is taken
  to be a \<open>std::map\<close> from \<open>std::string\<close> to \<open>std::string\<close>: a finite map from strings to
  strings.
\<close>

type_synonym StringMap = "string \<rightharpoonup> string"

text \<open>
  The template parameter \<open>M\<close> of \<open>MessageEvent<M>\<close>: a message type \<open>T\<close>, \<open>T const\<close>,
  or the type-erased placeholders \<open>void\<close> and \<open>void const\<close>. The functions below are the
  boost type traits the class uses.
\<close>

datatype payload_type = Mutable | Const | Void | Void_Const

fun is_const :: "payload_type \<Rightarrow> bool" where
  "is_const Mutable = False"
| "is_const Const = True"
| "is_const Void = False"
| "is_const Void_Const = True"

fun is_void :: "payload_type \<Rightarrow> bool" where
  "is_void Mutable = False"
| "is_void Const = False"
| "is_void Void = True"
| "is_void Void_Const = True"

fun add_const :: "payload_type \<Rightarrow> payload_type" where
  "add_const Mutable = Const"
| "add_const Const = Const"
| "add_const Void = Void_Const"
| "add_const Void_Const = Void_Const"

fun remove_const :: "payload_type \<Rightarrow> payload_type" where
  "remove_const Mutable = Mutable"
| "remove_const Const = Mutable"
| "remove_const Void = Void"
| "remove_const Void_Const = Void"

subsection \<open>The world outside an envelope\<close>

text \<open>
  \<open>msgs\<close> holds the message objects and \<open>hdrs\<close> the header maps that shared pointers
  refer to. \<open>create_calls\<close> counts the evaluations of \<open>create_()\<close>; no code reads it, it
  only makes the number of factory invocations observable.
\<close>

record 'm world =
  msgs :: "'m heap"
  hdrs :: "StringMap heap"
  create_calls :: nat

text \<open>
  \<open>CreateFunction\<close> is \<open>boost::function<MessagePtr()>\<close>: either empty (\<open>None\<close>) or a
  callable that returns a message pointer and may allocate in the message heap.
\<close>

type_synonym 'm CreateFunction = "('m heap \<Rightarrow> ptr \<times> 'm heap) option"

text \<open>
  \<open>DefaultMessageCreator<M>\<close> calls \<open>boost::make_shared<M>()\<close>: a new object, holding the
  default-constructed message \<open>dflt\<close>, at the next free address.
\<close>

definition DefaultMessageCreator :: "'m \<Rightarrow> 'm heap \<Rightarrow> ptr \<times> 'm heap" where
  "DefaultMessageCreator dflt h = (Some (length h), h @ [dflt])"

definition defaultMessageCreateFunction :: "'m \<Rightarrow> 'm heap \<Rightarrow> ptr \<times> 'm heap" where
  "defaultMessageCreateFunction dflt = DefaultMessageCreator dflt"

subsection \<open>The envelope\<close>

text \<open>
  The data members of \<open>MessageEvent<M>\<close>, in the order of the class. The member names of
  the source end in an underscore, which Isabelle does not allow in a name. \<open>Time\<close> comes
  from \<open>Time.h\<close>, which is not among the sources: it is the type parameter \<open>'t\<close>, and the
  operations that compare times ask for a linear order on it.
\<close>

record ('m, 't) MessageEvent =
  message :: ptr
  message_copy :: ptr
  connection_header :: ptr
  receipt_time :: 't
  nonconst_need_copy :: bool
  create :: "'m CreateFunction"

datatype error = AssertionFailed | InvalidDereference

text \<open>
  \<open>init\<close> stores its five arguments; the cached copy is not touched.
\<close>

definition init ::
  "ptr \<Rightarrow> ptr \<Rightarrow> 't \<Rightarrow> bool \<Rightarrow> 'm CreateFunction
    \<Rightarrow> ('m, 't) MessageEvent \<Rightarrow> ('m, 't) MessageEvent" where
  "init msg hdr t nc cf this =
     this\<lparr>message := msg, connection_header := hdr, receipt_time := t,
          nonconst_need_copy := nc, create := cf\<rparr>"

text \<open>
  \<open>copyMessageIfNecessary\<close>: the overload for \<open>void\<close> payloads returns the stored pointer.
  The other one returns the stored pointer for a const payload or when no copy is
  needed, the cached copy when there is one, and otherwise asserts the factory, calls it,
  caches the result and assigns the received message to the new object. A failed
  \<open>assert\<close> aborts the program. Going through an empty pointer, or one that refers to no
  object of the heap (the factory's result or the received message), is an error too.
\<close>

definition copyMessageIfNecessary ::
  "payload_type \<Rightarrow> ('m, 't) MessageEvent \<Rightarrow> 'm world
    \<Rightarrow> error + (ptr \<times> ('m, 't) MessageEvent \<times> 'm world)" where
  "copyMessageIfNecessary M ev w =
     (if is_void M then Inr (message ev, ev, w)
      else if is_const M \<or> \<not> nonconst_need_copy ev then Inr (message ev, ev, w)
      else if message_copy ev \<noteq> None then Inr (message_copy ev, ev, w)
      else (case create ev of
              None \<Rightarrow> Inl AssertionFailed
            | Some f \<Rightarrow>
                (case f (msgs w) of (q, h) \<Rightarrow>
                   (case q of
                      None \<Rightarrow> Inl InvalidDereference
                    | Some qa \<Rightarrow>
                        (case load h (message ev) of
                           None \<Rightarrow> Inl InvalidDereference
                         | Some v \<Rightarrow>
                             if qa < length h
                             then Inr (Some qa, ev\<lparr>message_copy := Some qa\<rparr>,
                                       w\<lparr>msgs := h[qa := v],
                                         create_calls := Suc (create_calls w)\<rparr>)
                             else Inl InvalidDereference)))))"

definition getMessage ::
  "payload_type \<Rightarrow> ('m, 't) MessageEvent \<Rightarrow> 'm world
    \<Rightarrow> error + (ptr \<times> ('m, 't) MessageEvent \<times> 'm world)" where
  "getMessage M ev w = copyMessageIfNecessary M ev w"

definition getConstMessage :: "('m, 't) MessageEvent \<Rightarrow> ptr" where
  "getConstMessage ev = message ev"

definition getConnectionHeaderPtr :: "('m, 't) MessageEvent \<Rightarrow> ptr" where
  "getConnectionHeaderPtr ev = connection_header ev"

definition getReceiptTime :: "('m, 't) MessageEvent \<Rightarrow> 't" where
  "getReceiptTime ev = receipt_time ev"

definition nonConstWillCopy :: "('m, 't) MessageEvent \<Rightarrow> bool" where
  "nonConstWillCopy ev = nonconst_need_copy ev"

definition getMessageWillCopy :: "payload_type \<Rightarrow> ('m, 't) MessageEvent \<Rightarrow> bool" where
  "getMessageWillCopy M ev = (\<not> is_const M \<and> nonconst_need_copy ev)"

definition getMessageFactory :: "('m, 't) MessageEvent \<Rightarrow> 'm CreateFunction" where
  "getMessageFactory ev = create ev"

text \<open>
  \<open>getPublisherName\<close>: the sentinel when the header pointer is empty, and otherwise
  the header map indexed with \<open>operator[]\<close> at \<open>callerid\<close>. Indexing a \<open>std::map\<close> with
  a key it does not hold inserts the key with an empty string, \<open>[]\<close>, and returns that
  string, so the call returns the name together with the world it leaves.
\<close>

definition s_unknown_publisher_string :: string where
  "s_unknown_publisher_string = ''unknown_publisher''"

definition getPublisherName ::
  "('m, 't) MessageEvent \<Rightarrow> 'm world \<Rightarrow> error + (string \<times> 'm world)" where
  "getPublisherName ev w =
     (case connection_header ev of
        None \<Rightarrow> Inr (s_unknown_publisher_string, w)
      | Some a \<Rightarrow>
          (case load (hdrs w) (Some a) of
             None \<Rightarrow> Inl InvalidDereference
           | Some m \<Rightarrow>
               (case m ''callerid'' of
                  Some name \<Rightarrow> Inr (name, w)
                | None \<Rightarrow>
                    Inr ([], w\<lparr>hdrs := (hdrs w)[a := m(''callerid'' \<mapsto> [])]\<rparr>))))"

subsection \<open>Assignment and construction\<close>

text \<open>
  The two assignment operators take the right-hand side as \<open>MessageEvent<Message>\<close> and as
  \<open>MessageEvent<ConstMessage>\<close>, where \<open>Message\<close> and \<open>ConstMessage\<close> are \<open>M\<close> without and
  with \<open>const\<close>. Both call \<open>getMessage\<close> on the right-hand side, which is an envelope of
  that type and may cache a copy there, pass the result and the metadata of the
  right-hand side to \<open>init\<close>, and reset the cached copy of the left-hand side. They return
  the left-hand side, the right-hand side and the world.
\<close>

definition operator_assign_Message ::
  "payload_type \<Rightarrow> ('m, 't) MessageEvent \<Rightarrow> ('m, 't) MessageEvent \<Rightarrow> 'm world
    \<Rightarrow> error + (('m, 't) MessageEvent \<times> ('m, 't) MessageEvent \<times> 'm world)" where
  "operator_assign_Message M this rhs w =
     (case getMessage (remove_const M) rhs w of
        Inl e \<Rightarrow> Inl e
      | Inr (p, rhs', w') \<Rightarrow>
          Inr ((init p (getConnectionHeaderPtr rhs') (getReceiptTime rhs')
                  (nonConstWillCopy rhs') (getMessageFactory rhs') this)
                 \<lparr>message_copy := None\<rparr>, rhs', w'))"

definition operator_assign_ConstMessage ::
  "payload_type \<Rightarrow> ('m, 't) MessageEvent \<Rightarrow> ('m, 't) MessageEvent \<Rightarrow> 'm world
    \<Rightarrow> error + (('m, 't) MessageEvent \<times> ('m, 't) MessageEvent \<times> 'm world)" where
  "operator_assign_ConstMessage M this rhs w =
     (case getMessage (add_const M) rhs w of
        Inl e \<Rightarrow> Inl e
      | Inr (p, rhs', w') \<Rightarrow>
          Inr ((init p (getConnectionHeaderPtr rhs') (getReceiptTime rhs')
                  (nonConstWillCopy rhs') (getMessageFactory rhs') this)
                 \<lparr>message_copy := None\<rparr>, rhs', w'))"

text \<open>
  When the body of a constructor starts, the members have been default-initialised: the
  pointers and the factory are empty, the time is \<open>Time()\<close>, here \<open>t0\<close>, and the flag, a
  \<open>bool\<close> without initialiser, holds an indeterminate value \<open>b\<close>.
\<close>

definition default_members :: "'t \<Rightarrow> bool \<Rightarrow> ('m, 't) MessageEvent" where
  "default_members t0 b =
     \<lparr>message = None, message_copy = None, connection_header = None,
      receipt_time = t0, nonconst_need_copy = b, create = None\<rparr>"

text \<open>The default constructor initialises the flag to \<open>true\<close>.\<close>

definition MessageEvent_default :: "'t \<Rightarrow> ('m, 't) MessageEvent" where
  "MessageEvent_default t0 = default_members t0 True"

text \<open>
  The constructors from another envelope assign it to the new object; the ones with a
  second argument then overwrite the flag with it.
\<close>

definition MessageEvent_from_Message ::
  "payload_type \<Rightarrow> 't \<Rightarrow> bool \<Rightarrow> ('m, 't) MessageEvent \<Rightarrow> 'm world
    \<Rightarrow> error + (('m, 't) MessageEvent \<times> ('m, 't) MessageEvent \<times> 'm world)" where
  "MessageEvent_from_Message M t0 b rhs w =
     operator_assign_Message M (default_members t0 b) rhs w"

definition MessageEvent_from_ConstMessage ::
  "payload_type \<Rightarrow> 't \<Rightarrow> bool \<Rightarrow> ('m, 't) MessageEvent \<Rightarrow> 'm world
    \<Rightarrow> error + (('m, 't) MessageEvent \<times> ('m, 't) MessageEvent \<times> 'm world)" where
  "MessageEvent_from_ConstMessage M t0 b rhs w =
     operator_assign_ConstMessage M (default_members t0 b) rhs w"

definition MessageEvent_from_Message_flag ::
  "payload_type \<Rightarrow> 't \<Rightarrow> bool \<Rightarrow> ('m, 't) MessageEvent \<Rightarrow> bool \<Rightarrow> 'm world
    \<Rightarrow> error + (('m, 't) MessageEvent \<times> ('m, 't) MessageEvent \<times> 'm world)" where
  "MessageEvent_from_Message_flag M t0 b rhs nc w =
     (case operator_assign_Message M (default_members t0 b) rhs w of
        Inl e \<Rightarrow> Inl e
      | Inr (this, rhs', w') \<Rightarrow> Inr (this\<lparr>nonconst_need_copy := nc\<rparr>, rhs', w'))"

definition MessageEvent_from_ConstMessage_flag ::
  "payload_type \<Rightarrow> 't \<Rightarrow> bool \<Rightarrow> ('m, 't) MessageEvent \<Rightarrow> bool \<Rightarrow> 'm world
    \<Rightarrow> error + (('m, 't) MessageEvent \<times> ('m, 't) MessageEvent \<times> 'm world)" where
  "MessageEvent_from_ConstMessage_flag M t0 b rhs nc w =
     (case operator_assign_ConstMessage M (default_members t0 b) rhs w of
        Inl e \<Rightarrow> Inl e
      | Inr (this, rhs', w') \<Rightarrow> Inr (this\<lparr>nonconst_need_copy := nc\<rparr>, rhs', w'))"

text \<open>
  The constructor from a \<open>MessageEvent<void const>\<close> and a factory: the pointer that
  \<open>getMessage\<close> returns on the type-erased envelope, its metadata, and the given factory.
\<close>

definition MessageEvent_from_void_const ::
  "'t \<Rightarrow> bool \<Rightarrow> ('m, 't) MessageEvent \<Rightarrow> 'm CreateFunction \<Rightarrow> 'm world
    \<Rightarrow> error + (('m, 't) MessageEvent \<times> ('m, 't) MessageEvent \<times> 'm world)" where
  "MessageEvent_from_void_const t0 b rhs cf w =
     (case getMessage Void_Const rhs w of
        Inl e \<Rightarrow> Inl e
      | Inr (p, rhs', w') \<Rightarrow>
          Inr (init p (getConnectionHeaderPtr rhs') (getReceiptTime rhs')
                 (nonConstWillCopy rhs') cf (default_members t0 b), rhs', w'))"

text \<open>
  The constructors from a message pointer. \<open>now\<close> is the value of \<open>Time::now()\<close>, and
  \<open>dflt\<close> the default-constructed message that \<open>DefaultMessageCreator\<close> allocates.
\<close>

definition MessageEvent_from_ptr ::
  "'t \<Rightarrow> bool \<Rightarrow> 'm \<Rightarrow> 't \<Rightarrow> ptr \<Rightarrow> ('m, 't) MessageEvent" where
  "MessageEvent_from_ptr t0 b dflt now msg =
     init msg None now True (Some (DefaultMessageCreator dflt)) (default_members t0 b)"

definition MessageEvent_from_ptr_header_time ::
  "'t \<Rightarrow> bool \<Rightarrow> 'm \<Rightarrow> ptr \<Rightarrow> ptr \<Rightarrow> 't \<Rightarrow> ('m, 't) MessageEvent" where
  "MessageEvent_from_ptr_header_time t0 b dflt msg hdr t =
     init msg hdr t True (Some (DefaultMessageCreator dflt)) (default_members t0 b)"

definition MessageEvent_from_ptr_time ::
  "'t \<Rightarrow> bool \<Rightarrow> 'm \<Rightarrow> ptr \<Rightarrow> 't \<Rightarrow> ('m, 't) MessageEvent" where
  "MessageEvent_from_ptr_time t0 b dflt msg t =
     init msg None t True (Some (DefaultMessageCreator dflt)) (default_members t0 b)"

definition MessageEvent_full ::
  "'t \<Rightarrow> bool \<Rightarrow> ptr \<Rightarrow> ptr \<Rightarrow> 't \<Rightarrow> bool \<Rightarrow> 'm CreateFunction \<Rightarrow> ('m, 't) MessageEvent" where
  "MessageEvent_full t0 b msg hdr t nc cf = init msg hdr t nc cf (default_members t0 b)"

subsection \<open>Ordering and equality\<close>

text \<open>
  The comparison of two shared pointers belongs to boost, not to the sources: \<open>!=\<close> is
  inequality of the addresses, and \<open><\<close> is taken to be their order, with the empty
  pointer below every other.
\<close>

fun ptr_less :: "ptr \<Rightarrow> ptr \<Rightarrow> bool" where
  "ptr_less None None = False"
| "ptr_less None (Some b) = True"
| "ptr_less (Some a) None = False"
| "ptr_less (Some a) (Some b) = (a < b)"

definition operator_less ::
  "('m, 't::linorder) MessageEvent \<Rightarrow> ('m, 't) MessageEvent \<Rightarrow> bool" where
  "operator_less this rhs =
     (if message this \<noteq> message rhs then ptr_less (message this) (message rhs)
      else if receipt_time this \<noteq> receipt_time rhs
           then receipt_time this < receipt_time rhs
      else nonconst_need_copy this < nonconst_need_copy rhs)"

text \<open>
  \<open>operator==\<close> returns
  \<open>message_ = rhs.message_ && receipt_time_ == rhs.receipt_time_ &&
  nonconst_need_copy_ == rhs.nonconst_need_copy_\<close>. The first operator is an assignment
  and binds weakest, so the value is that of the conjunction to its right, in which
  \<open>rhs.message_\<close> stands as a truth value: the pointer is not empty. The payload pointer
  of the left-hand envelope is not read. (The conjunction is what would be stored in
  \<open>message_\<close>; a shared pointer takes no \<open>bool\<close>, so the store itself is outside the
  model.)
\<close>

definition operator_eq ::
  "('m, 't) MessageEvent \<Rightarrow> ('m, 't) MessageEvent \<Rightarrow> bool" where
  "operator_eq this rhs =
     (message rhs \<noteq> None \<and> receipt_time this = receipt_time rhs
      \<and> nonconst_need_copy this = nonconst_need_copy rhs)"

definition operator_neq ::
  "('m, 't) MessageEvent \<Rightarrow> ('m, 't) MessageEvent \<Rightarrow> bool" where
  "operator_neq this rhs = (\<not> operator_eq this rhs)"

subsection \<open>Observing an envelope\<close>

text \<open>
  A caller that calls \<open>getMessage\<close> \<open>n\<close> times in a row on the same envelope; the result
  lists the pointers returned, in order.
\<close>

fun getMessage_times ::
  "nat \<Rightarrow> payload_type \<Rightarrow> ('m, 't) MessageEvent \<Rightarrow> 'm world
    \<Rightarrow> error + (ptr list \<times> ('m, 't) MessageEvent \<times> 'm world)" where
  "getMessage_times 0 M ev w = Inr ([], ev, w)"
| "getMessage_times (Suc n) M ev w =
     (case getMessage M ev w of
        Inl e \<Rightarrow> Inl e
      | Inr (p, ev', w') \<Rightarrow>
          (case getMessage_times n M ev' w' of
             Inl e \<Rightarrow> Inl e
           | Inr (ps, ev'', w'') \<Rightarrow> Inr (p # ps, ev'', w'')))"

text \<open>A caller that assigns \<open>v\<close> to the message at address \<open>q\<close>.\<close>

definition write_message :: "addr \<Rightarrow> 'm \<Rightarrow> 'm world \<Rightarrow> 'm world" where
  "write_message q v w = w\<lparr>msgs := (msgs w)[q := v]\<rparr>"

text \<open>The header pointer, the receipt time and the factory of an envelope.\<close>

definition metadata_of :: "('m, 't) MessageEvent \<Rightarrow> ptr \<times> 't \<times> 'm CreateFunction" where
  "metadata_of ev = (connection_header ev, receipt_time ev, create ev)"

subsection \<open>The end-to-end scenario of the specification\<close>

text \<open>
  One message of value 5 at address 0, one header map with \<open>callerid = nodeA\<close> at address
  0, and an envelope built by the fully explicit constructor with receipt time 7, the
  copy-needed flag set and the default factory.
\<close>

definition scenario_world :: "int world" where
  "scenario_world =
     \<lparr>msgs = [5], hdrs = [Map.empty(''callerid'' \<mapsto> ''nodeA'')], create_calls = 0\<rparr>"

definition scenario_event :: "(int, nat) MessageEvent" where
  "scenario_event =
     MessageEvent_full 0 False (Some 0) (Some 0) 7 True (Some (DefaultMessageCreator 0))"

section \<open>Properties\<close>

lemmas scenario_defs =
  scenario_world_def scenario_event_def MessageEvent_full_def init_def
  default_members_def DefaultMessageCreator_def

subsection \<open>Facts about \<open>getMessage\<close>\<close>

lemma getMessage_cached:
  "nonconst_need_copy ev \<Longrightarrow> message_copy ev = Some q
   \<Longrightarrow> getMessage Mutable ev w = Inr (Some q, ev, w)"
  by (simp add: getMessage_def copyMessageIfNecessary_def)

lemma getMessage_first:
  assumes "nonconst_need_copy ev" and "message_copy ev = None"
    and "create ev = Some f" and "f (msgs w) = (Some q, h)" and "q < length h"
    and "load h (message ev) = Some v"
  shows "getMessage Mutable ev w
           = Inr (Some q, ev\<lparr>message_copy := Some q\<rparr>,
                  w\<lparr>msgs := h[q := v], create_calls := Suc (create_calls w)\<rparr>)"
  using assms by (simp add: getMessage_def copyMessageIfNecessary_def)

lemma getMessage_times_cached:
  "nonconst_need_copy ev \<Longrightarrow> message_copy ev = Some q
   \<Longrightarrow> getMessage_times n Mutable ev w = Inr (replicate n (Some q), ev, w)"
  by (induction n) (simp_all add: getMessage_cached)

lemma getMessage_add_const:
  "getMessage (add_const M) ev w = Inr (message ev, ev, w)"
  by (cases M) (simp_all add: getMessage_def copyMessageIfNecessary_def)

lemma getMessage_keeps_metadata:
  assumes "getMessage M ev w = Inr (p, ev', w')"
  shows "metadata_of ev' = metadata_of ev \<and> nonconst_need_copy ev' = nonconst_need_copy ev"
  using assms
  by (auto simp add: getMessage_def copyMessageIfNecessary_def metadata_of_def
      split: if_splits option.splits prod.splits)

subsection \<open>Lazy copy\<close>

text \<open>
  C1. Take an envelope over the mutable payload type with the copy-needed flag set and
  no copy cached yet, whose factory returns a pointer \<open>q\<close> to an object of the heap, and
  whose received message can be read. Then any number \<open>n + 1\<close> of calls of \<open>getMessage\<close>
  all return \<open>q\<close>; the factory has been invoked exactly once after them, the message has
  been copied once, and the envelope caches \<open>q\<close>. Once \<open>q\<close> is cached, a call in any world
  \<open>w'\<close> returns \<open>q\<close> and changes nothing.
\<close>

theorem getMessage_single_materialization:
  assumes "nonconst_need_copy ev" and "message_copy ev = None"
    and "create ev = Some f" and "f (msgs w) = (Some q, h)" and "q < length h"
    and "load h (message ev) = Some v"
  shows "getMessage_times (Suc n) Mutable ev w =
           Inr (replicate (Suc n) (Some q), ev\<lparr>message_copy := Some q\<rparr>,
                w\<lparr>msgs := h[q := v], create_calls := Suc (create_calls w)\<rparr>) \<and>
         getMessage Mutable (ev\<lparr>message_copy := Some q\<rparr>) w'
           = Inr (Some q, ev\<lparr>message_copy := Some q\<rparr>, w')"
proof -
  let ?ev = "ev\<lparr>message_copy := Some q\<rparr>"
  let ?w = "w\<lparr>msgs := h[q := v], create_calls := Suc (create_calls w)\<rparr>"
  have first: "getMessage Mutable ev w = Inr (Some q, ?ev, ?w)"
    using assms by (rule getMessage_first)
  have rest: "getMessage_times n Mutable ?ev ?w = Inr (replicate n (Some q), ?ev, ?w)"
    using assms(1) by (simp add: getMessage_times_cached)
  have later: "getMessage Mutable ?ev w' = Inr (Some q, ?ev, w')"
    using assms(1) by (simp add: getMessage_cached)
  show ?thesis by (simp add: first rest later)
qed

theorem getMessage_single_materialization_witness:
  "getMessage_times 3 Mutable scenario_event scenario_world
     = Inr ([Some 1, Some 1, Some 1], scenario_event\<lparr>message_copy := Some 1\<rparr>,
            scenario_world\<lparr>msgs := [5, 5], create_calls := 1\<rparr>) \<and>
   getMessage Mutable (scenario_event\<lparr>message_copy := Some 1\<rparr>)
       (write_message 1 6 scenario_world)
     = Inr (Some 1, scenario_event\<lparr>message_copy := Some 1\<rparr>,
            write_message 1 6 scenario_world)"
  using getMessage_single_materialization
    [where ev = scenario_event and f = "DefaultMessageCreator 0" and w = scenario_world
       and q = 1 and h = "[5, 0]" and v = 5 and n = 2
       and w' = "write_message 1 6 scenario_world"]
  by (simp add: scenario_defs numeral_3_eq_3)

text \<open>
  C8. Take an envelope over the mutable payload type with the copy-needed flag set and
  no copy cached yet, whose received message at address \<open>p\<close> has the value \<open>v\<close>, and whose
  factory allocates a new object at an address \<open>q\<close> beyond the heap it is given, leaving
  the objects of that heap as they are. The first \<open>getMessage\<close> returns \<open>q\<close>, which is not
  \<open>p\<close>, and both objects then hold \<open>v\<close>. When the caller assigns \<open>v'\<close> to the copy, the
  received message still holds \<open>v\<close>, and a second \<open>getMessage\<close> returns \<open>q\<close> again, which
  holds \<open>v'\<close>.
\<close>

theorem getMessage_copy_is_independent:
  assumes flag: "nonconst_need_copy ev" and fresh: "message_copy ev = None"
    and fac: "create ev = Some f"
    and orig: "message ev = Some p" "load (msgs w) (Some p) = Some v"
    and alloc: "f (msgs w) = (Some q, h)" "length (msgs w) \<le> q" "q < length h"
      "take (length (msgs w)) h = msgs w"
    and names: "ev' = ev\<lparr>message_copy := Some q\<rparr>"
      "w' = w\<lparr>msgs := h[q := v], create_calls := Suc (create_calls w)\<rparr>"
  shows "getMessage Mutable ev w = Inr (Some q, ev', w') \<and> q \<noteq> p \<and>
         load (msgs w') (Some q) = Some v \<and> load (msgs w') (Some p) = Some v \<and>
         load (msgs (write_message q v' w')) (Some p) = Some v \<and>
         getMessage Mutable ev' (write_message q v' w')
           = Inr (Some q, ev', write_message q v' w') \<and>
         load (msgs (write_message q v' w')) (Some q) = Some v'"
proof -
  from orig(2) have p_lt: "p < length (msgs w)" and p_val: "msgs w ! p = v"
    by (simp_all split: if_splits)
  from p_lt alloc(2) have neq: "q \<noteq> p" by simp
  have "h ! p = take (length (msgs w)) h ! p" using p_lt by simp
  then have hp: "h ! p = v" using alloc(4) p_val by simp
  have p_lt_h: "p < length h" using p_lt alloc(2,3) by simp
  have ld: "load h (message ev) = Some v" using orig(1) hp p_lt_h by simp
  have first: "getMessage Mutable ev w = Inr (Some q, ev', w')"
    unfolding names using flag fresh fac alloc(1,3) ld by (rule getMessage_first)
  have second: "getMessage Mutable ev' (write_message q v' w')
                  = Inr (Some q, ev', write_message q v' w')"
    unfolding names using flag by (simp add: getMessage_cached)
  have vals: "load (msgs w') (Some q) = Some v" "load (msgs w') (Some p) = Some v"
    "load (msgs (write_message q v' w')) (Some p) = Some v"
    "load (msgs (write_message q v' w')) (Some q) = Some v'"
    unfolding names using neq hp p_lt_h alloc(3) by (simp_all add: write_message_def)
  show ?thesis using first second vals neq by simp
qed

theorem getMessage_copy_is_independent_witness:
  "load (msgs scenario_world) (Some 0) = Some 5 \<and>
   getMessage Mutable scenario_event scenario_world
     = Inr (Some 1, scenario_event\<lparr>message_copy := Some 1\<rparr>,
            scenario_world\<lparr>msgs := [5, 5], create_calls := 1\<rparr>) \<and>
   load (msgs (write_message 1 6 (scenario_world\<lparr>msgs := [5, 5], create_calls := 1\<rparr>)))
       (Some 0) = Some 5 \<and>
   getMessage Mutable (scenario_event\<lparr>message_copy := Some 1\<rparr>)
       (write_message 1 6 (scenario_world\<lparr>msgs := [5, 5], create_calls := 1\<rparr>))
     = Inr (Some 1, scenario_event\<lparr>message_copy := Some 1\<rparr>,
            write_message 1 6 (scenario_world\<lparr>msgs := [5, 5], create_calls := 1\<rparr>)) \<and>
   load (msgs (write_message 1 6 (scenario_world\<lparr>msgs := [5, 5], create_calls := 1\<rparr>)))
       (Some 1) = Some 6"
  using getMessage_copy_is_independent
    [where ev = scenario_event and f = "DefaultMessageCreator 0" and w = scenario_world
       and p = 0 and q = 1 and h = "[5, 0]" and v = 5 and v' = 6
       and ev' = "scenario_event\<lparr>message_copy := Some 1\<rparr>"
       and w' = "scenario_world\<lparr>msgs := [5, 5], create_calls := 1\<rparr>"]
  by (simp add: scenario_defs write_message_def)

subsection \<open>Payload types that never copy\<close>

text \<open>
  C5. For an envelope over a const payload type, \<open>getMessage\<close> returns the stored pointer
  to the received message, whether the copy-needed flag is set or not; the envelope and
  the world are unchanged, so the factory is not invoked and no copy is cached.
\<close>

theorem getMessage_const_zero_copy:
  "is_const M \<Longrightarrow>
     getMessage M ev w = Inr (message ev, ev, w) \<and>
     getMessage M (ev\<lparr>nonconst_need_copy := True\<rparr>) w
       = Inr (message ev, ev\<lparr>nonconst_need_copy := True\<rparr>, w) \<and>
     getMessage M (ev\<lparr>nonconst_need_copy := False\<rparr>) w
       = Inr (message ev, ev\<lparr>nonconst_need_copy := False\<rparr>, w)"
  by (simp add: getMessage_def copyMessageIfNecessary_def)

theorem getMessage_const_zero_copy_witness:
  "is_const Const \<and> nonconst_need_copy scenario_event \<and>
   getMessage Const scenario_event scenario_world
     = Inr (Some 0, scenario_event, scenario_world) \<and>
   getMessage Const (scenario_event\<lparr>nonconst_need_copy := False\<rparr>) scenario_world
     = Inr (Some 0, scenario_event\<lparr>nonconst_need_copy := False\<rparr>, scenario_world)"
  using getMessage_const_zero_copy [of Const scenario_event scenario_world]
  by (simp add: scenario_defs)

text \<open>
  C10. For an envelope over \<open>void\<close> or \<open>void const\<close>, \<open>getMessage\<close> returns the stored
  pointer and leaves the envelope and the world as they are: the flag is not read, the
  factory is not invoked and no copy is cached. The constructor from a type-erased
  envelope and a factory therefore stores that pointer, the metadata of the type-erased
  envelope and the given factory, and changes neither that envelope nor the world.
\<close>

theorem getMessage_void:
  "is_void M \<Longrightarrow>
     getMessage M ev w = Inr (message ev, ev, w) \<and>
     getMessage M (ev\<lparr>nonconst_need_copy := True\<rparr>) w
       = Inr (message ev, ev\<lparr>nonconst_need_copy := True\<rparr>, w) \<and>
     getMessage M (ev\<lparr>nonconst_need_copy := False\<rparr>) w
       = Inr (message ev, ev\<lparr>nonconst_need_copy := False\<rparr>, w) \<and>
     MessageEvent_from_void_const t0 b ev cf w
       = Inr (init (message ev) (connection_header ev) (receipt_time ev)
                (nonconst_need_copy ev) cf (default_members t0 b), ev, w)"
  by (simp add: getMessage_def copyMessageIfNecessary_def MessageEvent_from_void_const_def
      getConnectionHeaderPtr_def getReceiptTime_def nonConstWillCopy_def)

theorem getMessage_void_witness:
  "is_void Void \<and> is_void Void_Const \<and> nonconst_need_copy scenario_event \<and>
   getMessage Void scenario_event scenario_world
     = Inr (Some 0, scenario_event, scenario_world) \<and>
   getMessage Void_Const scenario_event scenario_world
     = Inr (Some 0, scenario_event, scenario_world) \<and>
   MessageEvent_from_void_const 0 False (scenario_event\<lparr>create := None\<rparr>)
       (Some (DefaultMessageCreator 0)) scenario_world
     = Inr (scenario_event, scenario_event\<lparr>create := None\<rparr>, scenario_world)"
  using getMessage_void [of Void scenario_event scenario_world]
    getMessage_void [of Void_Const "scenario_event\<lparr>create := None\<rparr>" scenario_world
      0 False "Some (DefaultMessageCreator 0)"]
    getMessage_void [of Void_Const scenario_event scenario_world]
  by (simp add: scenario_defs)

subsection \<open>The factory\<close>

text \<open>
  C7. When the envelope holds a factory, \<open>getMessage\<close> never fails the assertion; this
  holds in particular for an envelope built by the fully explicit constructor with a
  factory. When a copy has to be made (mutable payload type, flag set, nothing cached)
  and the envelope holds no factory, \<open>getMessage\<close> fails the assertion and returns no
  pointer.
\<close>

theorem factory_assertion:
  "(create ev \<noteq> None \<longrightarrow> getMessage M ev w \<noteq> Inl AssertionFailed) \<and>
   getMessage M (MessageEvent_full t0 b msg hdr t nc (Some f)) w \<noteq> Inl AssertionFailed \<and>
   (create ev = None \<and> \<not> is_void M \<and> \<not> is_const M \<and> nonconst_need_copy ev \<and>
    message_copy ev = None \<longrightarrow> getMessage M ev w = Inl AssertionFailed) \<and>
   getMessage Mutable (MessageEvent_full t0 b msg hdr t True None) w = Inl AssertionFailed"
  by (auto simp add: getMessage_def copyMessageIfNecessary_def MessageEvent_full_def
      init_def default_members_def split: option.splits prod.splits)

theorem factory_assertion_witness:
  "create scenario_event \<noteq> None \<and>
   getMessage Mutable scenario_event scenario_world \<noteq> Inl AssertionFailed \<and>
   create (scenario_event\<lparr>create := None\<rparr>) = None \<and>
   getMessage Mutable (scenario_event\<lparr>create := None\<rparr>) scenario_world
     = Inl AssertionFailed"
  using factory_assertion
      [of scenario_event Mutable scenario_world "0::nat" False "Some 0" "Some 0" 7 True
          "DefaultMessageCreator (0::int)"]
    factory_assertion
      [of "scenario_event\<lparr>create := None\<rparr>" Mutable scenario_world "0::nat" False
          "Some 0" "Some 0" 7 True "DefaultMessageCreator (0::int)"]
  by (simp add: scenario_defs)

subsection \<open>The publisher name\<close>

text \<open>
  C3, as the specification states it, fails: an envelope whose header map has no
  \<open>callerid\<close> entry gets the empty string, not the sentinel.
\<close>

theorem getPublisherName_missing_key_counterexample:
  "getPublisherName scenario_event (scenario_world\<lparr>hdrs := [Map.empty]\<rparr>)
     = Inr ([], scenario_world\<lparr>hdrs := [Map.empty(''callerid'' \<mapsto> [])]\<rparr>) \<and>
   [] \<noteq> s_unknown_publisher_string"
  by (simp add: getPublisherName_def s_unknown_publisher_string_def scenario_defs)

text \<open>
  C3, amended. \<open>getPublisherName\<close> returns the sentinel \<open>unknown_publisher\<close> when the
  envelope has no header map, the stored value when the map has an entry for
  \<open>callerid\<close>, and the empty string when the map has no entry for \<open>callerid\<close>.
\<close>

theorem getPublisherName_cases:
  "(connection_header ev = None \<longrightarrow>
      getPublisherName ev w = Inr (''unknown_publisher'', w)) \<and>
   (connection_header ev = Some a \<and> load (hdrs w) (Some a) = Some m \<and>
    m ''callerid'' = Some x \<longrightarrow>
      getPublisherName ev w = Inr (x, w)) \<and>
   (connection_header ev = Some a \<and> load (hdrs w) (Some a) = Some m \<and>
    m ''callerid'' = None \<longrightarrow>
      (\<exists>w'. getPublisherName ev w = Inr ([], w')))"
  by (simp add: getPublisherName_def s_unknown_publisher_string_def)

theorem getPublisherName_cases_witness:
  "getPublisherName (scenario_event\<lparr>connection_header := None\<rparr>) scenario_world
     = Inr (''unknown_publisher'', scenario_world) \<and>
   getPublisherName scenario_event scenario_world = Inr (''nodeA'', scenario_world) \<and>
   (\<exists>w'. getPublisherName scenario_event
            (scenario_world\<lparr>hdrs := [Map.empty(''topic'' \<mapsto> ''chatter'')]\<rparr>) = Inr ([], w'))"
  using getPublisherName_cases
      [of "scenario_event\<lparr>connection_header := None\<rparr>" scenario_world]
    getPublisherName_cases
      [of scenario_event scenario_world 0 "[''callerid'' \<mapsto> ''nodeA'']" "''nodeA''"]
    getPublisherName_cases
      [of scenario_event "scenario_world\<lparr>hdrs := [Map.empty(''topic'' \<mapsto> ''chatter'')]\<rparr>" 0
          "[''topic'' \<mapsto> ''chatter'']"]
  by (simp add: scenario_defs)

text \<open>
  C9. When the header map of an envelope has no entry for \<open>callerid\<close>,
  \<open>getPublisherName\<close> returns the empty string and leaves a world in which the map has
  the entry \<open>callerid\<close> with the empty string; every envelope \<open>ev2\<close> that shares the map
  sees that entry.
\<close>

theorem getPublisherName_inserts_callerid:
  assumes "connection_header ev = Some a" and "load (hdrs w) (Some a) = Some m"
    and "m ''callerid'' = None" and "connection_header ev2 = Some a"
    and "w' = w\<lparr>hdrs := (hdrs w)[a := m(''callerid'' \<mapsto> [])]\<rparr>"
  shows "getPublisherName ev w = Inr ([], w') \<and> w' \<noteq> w \<and>
         load (hdrs w') (Some a) = Some (m(''callerid'' \<mapsto> [])) \<and>
         getPublisherName ev2 w' = Inr ([], w')"
proof -
  from assms(2) have a_lt: "a < length (hdrs w)" and m_def: "hdrs w ! a = m"
    by (simp_all split: if_splits)
  have "((hdrs w') ! a) ''callerid'' = Some []" using assms(5) a_lt by simp
  moreover have "((hdrs w) ! a) ''callerid'' = None" using m_def assms(3) by simp
  ultimately have neq: "w' \<noteq> w" by auto
  show ?thesis using assms neq by (simp add: getPublisherName_def split: if_splits)
qed

theorem getPublisherName_inserts_callerid_witness:
  "load (hdrs (scenario_world\<lparr>hdrs := [Map.empty(''topic'' \<mapsto> ''chatter'')]\<rparr>)) (Some 0)
     = Some [''topic'' \<mapsto> ''chatter''] \<and>
   getPublisherName scenario_event
       (scenario_world\<lparr>hdrs := [Map.empty(''topic'' \<mapsto> ''chatter'')]\<rparr>)
     = Inr ([], scenario_world\<lparr>hdrs := [Map.empty(''topic'' \<mapsto> ''chatter'', ''callerid'' \<mapsto> [])]\<rparr>) \<and>
   getPublisherName (scenario_event\<lparr>message := Some 3\<rparr>)
       (scenario_world\<lparr>hdrs := [Map.empty(''topic'' \<mapsto> ''chatter'', ''callerid'' \<mapsto> [])]\<rparr>)
     = Inr ([], scenario_world\<lparr>hdrs := [Map.empty(''topic'' \<mapsto> ''chatter'', ''callerid'' \<mapsto> [])]\<rparr>)"
  using getPublisherName_inserts_callerid
    [where ev = scenario_event
       and w = "scenario_world\<lparr>hdrs := [Map.empty(''topic'' \<mapsto> ''chatter'')]\<rparr>"
       and a = 0 and m = "[''topic'' \<mapsto> ''chatter'']"
       and ?ev2.0 = "scenario_event\<lparr>message := Some 3\<rparr>"
       and w' = "scenario_world\<lparr>hdrs := [Map.empty(''topic'' \<mapsto> ''chatter'', ''callerid'' \<mapsto> [])]\<rparr>"]
  by (simp add: scenario_defs)

subsection \<open>Conversion between const and mutable envelopes\<close>

lemma assign_ConstMessage_result:
  "operator_assign_ConstMessage M this rhs w
     = Inr ((init (message rhs) (connection_header rhs) (receipt_time rhs)
               (nonconst_need_copy rhs) (create rhs) this)\<lparr>message_copy := None\<rparr>,
            rhs, w)"
  by (simp add: operator_assign_ConstMessage_def getMessage_add_const
      getConnectionHeaderPtr_def getReceiptTime_def nonConstWillCopy_def
      getMessageFactory_def)

lemma assign_Message_result:
  assumes "getMessage (remove_const M) rhs w = Inr (p, rhs', w')"
  shows "operator_assign_Message M this rhs w
     = Inr ((init p (connection_header rhs) (receipt_time rhs)
               (nonconst_need_copy rhs) (create rhs) this)\<lparr>message_copy := None\<rparr>,
            rhs', w')"
  using getMessage_keeps_metadata [OF assms] assms
  by (simp add: operator_assign_Message_def metadata_of_def
      getConnectionHeaderPtr_def getReceiptTime_def nonConstWillCopy_def
      getMessageFactory_def)

lemma assign_Message_error:
  assumes "getMessage (remove_const M) rhs w = Inl e"
  shows "operator_assign_Message M this rhs w = Inl e"
  using assms by (simp add: operator_assign_Message_def)

text \<open>
  C4, as the specification states it, fails: the constructor of a mutable envelope from a
  const envelope and a flag gives the new envelope that flag, here \<open>False\<close>, not the flag
  of the source, here \<open>True\<close>.
\<close>

theorem conversion_flag_counterexample:
  "MessageEvent_from_ConstMessage_flag Mutable 0 False scenario_event False scenario_world
     = Inr (scenario_event\<lparr>nonconst_need_copy := False\<rparr>, scenario_event, scenario_world) \<and>
   nonconst_need_copy (scenario_event\<lparr>nonconst_need_copy := False\<rparr>)
     \<noteq> nonconst_need_copy scenario_event"
  by (simp add: MessageEvent_from_ConstMessage_flag_def assign_ConstMessage_result
      scenario_defs)

text \<open>
  C4, amended. Assigning or constructing from a const envelope always completes, and
  changes neither the source nor the world. Assigning or constructing from a mutable
  envelope calls \<open>getMessage\<close> on the source: it fails with the error of that call, and
  otherwise completes and leaves the source and the world as that call leaves them. In
  every conversion that completes, the receipt time, the header pointer and the factory
  of the result are those of the source and its cached copy is empty; its copy-needed
  flag is that of the source after an assignment and after a constructor with one
  argument, and is the flag given after a constructor with a flag argument.
\<close>

theorem conversion_keeps_metadata_drops_cache:
  "(\<exists>l. operator_assign_ConstMessage M this rhs w = Inr (l, rhs, w) \<and>
         metadata_of l = metadata_of rhs \<and>
         nonconst_need_copy l = nonconst_need_copy rhs \<and> message_copy l = None) \<and>
   (\<exists>l. MessageEvent_from_ConstMessage M t0 b rhs w = Inr (l, rhs, w) \<and>
         metadata_of l = metadata_of rhs \<and>
         nonconst_need_copy l = nonconst_need_copy rhs \<and> message_copy l = None) \<and>
   (\<exists>l. MessageEvent_from_ConstMessage_flag M t0 b rhs nc w = Inr (l, rhs, w) \<and>
         metadata_of l = metadata_of rhs \<and>
         nonconst_need_copy l = nc \<and> message_copy l = None) \<and>
   (getMessage (remove_const M) rhs w = Inr (p, rhs', w') \<longrightarrow>
      (\<exists>l. operator_assign_Message M this rhs w = Inr (l, rhs', w') \<and>
            metadata_of l = metadata_of rhs \<and>
            nonconst_need_copy l = nonconst_need_copy rhs \<and> message_copy l = None) \<and>
      (\<exists>l. MessageEvent_from_Message M t0 b rhs w = Inr (l, rhs', w') \<and>
            metadata_of l = metadata_of rhs \<and>
            nonconst_need_copy l = nonconst_need_copy rhs \<and> message_copy l = None) \<and>
      (\<exists>l. MessageEvent_from_Message_flag M t0 b rhs nc w = Inr (l, rhs', w') \<and>
            metadata_of l = metadata_of rhs \<and>
            nonconst_need_copy l = nc \<and> message_copy l = None)) \<and>
   (getMessage (remove_const M) rhs w = Inl e \<longrightarrow>
      operator_assign_Message M this rhs w = Inl e \<and>
      MessageEvent_from_Message M t0 b rhs w = Inl e \<and>
      MessageEvent_from_Message_flag M t0 b rhs nc w = Inl e)"
proof (intro conjI impI)
  show "\<exists>l. operator_assign_ConstMessage M this rhs w = Inr (l, rhs, w) \<and>
         metadata_of l = metadata_of rhs \<and>
         nonconst_need_copy l = nonconst_need_copy rhs \<and> message_copy l = None"
    by (simp add: assign_ConstMessage_result init_def metadata_of_def)
  show "\<exists>l. MessageEvent_from_ConstMessage M t0 b rhs w = Inr (l, rhs, w) \<and>
         metadata_of l = metadata_of rhs \<and>
         nonconst_need_copy l = nonconst_need_copy rhs \<and> message_copy l = None"
    by (simp add: MessageEvent_from_ConstMessage_def assign_ConstMessage_result init_def
        metadata_of_def)
  show "\<exists>l. MessageEvent_from_ConstMessage_flag M t0 b rhs nc w = Inr (l, rhs, w) \<and>
         metadata_of l = metadata_of rhs \<and>
         nonconst_need_copy l = nc \<and> message_copy l = None"
    by (simp add: MessageEvent_from_ConstMessage_flag_def assign_ConstMessage_result
        init_def metadata_of_def)
next
  assume ok: "getMessage (remove_const M) rhs w = Inr (p, rhs', w')"
  show "\<exists>l. operator_assign_Message M this rhs w = Inr (l, rhs', w') \<and>
            metadata_of l = metadata_of rhs \<and>
            nonconst_need_copy l = nonconst_need_copy rhs \<and> message_copy l = None"
    by (simp add: assign_Message_result [OF ok] init_def metadata_of_def)
  show "\<exists>l. MessageEvent_from_Message M t0 b rhs w = Inr (l, rhs', w') \<and>
            metadata_of l = metadata_of rhs \<and>
            nonconst_need_copy l = nonconst_need_copy rhs \<and> message_copy l = None"
    by (simp add: MessageEvent_from_Message_def assign_Message_result [OF ok] init_def
        metadata_of_def)
  show "\<exists>l. MessageEvent_from_Message_flag M t0 b rhs nc w = Inr (l, rhs', w') \<and>
            metadata_of l = metadata_of rhs \<and>
            nonconst_need_copy l = nc \<and> message_copy l = None"
    by (simp add: MessageEvent_from_Message_flag_def assign_Message_result [OF ok] init_def
        metadata_of_def)
next
  assume err: "getMessage (remove_const M) rhs w = Inl e"
  show "operator_assign_Message M this rhs w = Inl e"
    by (rule assign_Message_error [OF err])
  show "MessageEvent_from_Message M t0 b rhs w = Inl e"
    by (simp add: MessageEvent_from_Message_def assign_Message_error [OF err])
  show "MessageEvent_from_Message_flag M t0 b rhs nc w = Inl e"
    by (simp add: MessageEvent_from_Message_flag_def assign_Message_error [OF err])
qed

theorem conversion_keeps_metadata_drops_cache_witness:
  "getMessage (remove_const Const) scenario_event scenario_world
     = Inr (Some 1, scenario_event\<lparr>message_copy := Some 1\<rparr>,
            scenario_world\<lparr>msgs := [5, 5], create_calls := 1\<rparr>) \<and>
   (\<exists>l. MessageEvent_from_Message Const 0 False scenario_event scenario_world
           = Inr (l, scenario_event\<lparr>message_copy := Some 1\<rparr>,
                  scenario_world\<lparr>msgs := [5, 5], create_calls := 1\<rparr>) \<and>
         metadata_of l = metadata_of scenario_event \<and>
         nonconst_need_copy l = nonconst_need_copy scenario_event \<and>
         message_copy l = None) \<and>
   (\<exists>l. MessageEvent_from_ConstMessage Const 0 False scenario_event scenario_world
           = Inr (l, scenario_event, scenario_world) \<and>
         metadata_of l = metadata_of scenario_event \<and>
         nonconst_need_copy l = nonconst_need_copy scenario_event \<and>
         message_copy l = None) \<and>
   getMessage (remove_const Const) (scenario_event\<lparr>create := None\<rparr>) scenario_world
     = Inl AssertionFailed \<and>
   MessageEvent_from_Message Const 0 False (scenario_event\<lparr>create := None\<rparr>)
       scenario_world
     = Inl AssertionFailed"
proof -
  have ok: "getMessage (remove_const Const) scenario_event scenario_world
     = Inr (Some 1, scenario_event\<lparr>message_copy := Some 1\<rparr>,
            scenario_world\<lparr>msgs := [5, 5], create_calls := 1\<rparr>)"
    by (simp add: getMessage_def copyMessageIfNecessary_def scenario_defs)
  have err: "getMessage (remove_const Const) (scenario_event\<lparr>create := None\<rparr>)
       scenario_world = Inl AssertionFailed"
    by (simp add: getMessage_def copyMessageIfNecessary_def scenario_defs)
  show ?thesis
    using ok err
      conversion_keeps_metadata_drops_cache
        [where M = Const and this = scenario_event and rhs = scenario_event
           and w = scenario_world and ?t0.0 = 0 and b = False and nc = True
           and p = "Some 1" and rhs' = "scenario_event\<lparr>message_copy := Some 1\<rparr>"
           and w' = "scenario_world\<lparr>msgs := [5, 5], create_calls := 1\<rparr>"
           and e = AssertionFailed]
      conversion_keeps_metadata_drops_cache
        [where M = Const and this = scenario_event
           and rhs = "scenario_event\<lparr>create := None\<rparr>"
           and w = scenario_world and ?t0.0 = 0 and b = False and nc = True
           and p = "Some 1" and rhs' = "scenario_event\<lparr>message_copy := Some 1\<rparr>"
           and w' = "scenario_world\<lparr>msgs := [5, 5], create_calls := 1\<rparr>"
           and e = AssertionFailed]
    by simp
qed

subsection \<open>Ordering and equality\<close>

lemma ptr_less_irrefl: "\<not> ptr_less p p"
  by (cases p) simp_all

text \<open>
  C6. \<open>operator<\<close> is the lexicographic order of the payload pointer, the receipt time
  and the copy-needed flag: when the pointers differ it is the comparison of the
  pointers; when they are equal and the times differ it is the comparison of the times;
  when both are equal it is the comparison of the flags.
\<close>

theorem operator_less_lexicographic:
  "operator_less this rhs =
     (ptr_less (message this) (message rhs) \<or>
      (message this = message rhs \<and>
       (receipt_time this < receipt_time rhs \<or>
        (receipt_time this = receipt_time rhs \<and>
         nonconst_need_copy this < nonconst_need_copy rhs)))) \<and>
   (message this \<noteq> message rhs \<longrightarrow>
      operator_less this rhs = ptr_less (message this) (message rhs)) \<and>
   (message this = message rhs \<and> receipt_time this \<noteq> receipt_time rhs \<longrightarrow>
      operator_less this rhs = (receipt_time this < receipt_time rhs)) \<and>
   (message this = message rhs \<and> receipt_time this = receipt_time rhs \<longrightarrow>
      operator_less this rhs = (nonconst_need_copy this < nonconst_need_copy rhs))"
  by (simp add: operator_less_def ptr_less_irrefl)

theorem operator_less_lexicographic_witness:
  "operator_less (scenario_event\<lparr>receipt_time := 9\<rparr>)
     (scenario_event\<lparr>message := Some 1, receipt_time := 3\<rparr>) \<and>
   \<not> operator_less (scenario_event\<lparr>message := Some 1, receipt_time := 3\<rparr>)
     (scenario_event\<lparr>receipt_time := 9\<rparr>) \<and>
   operator_less (scenario_event\<lparr>receipt_time := 3\<rparr>) (scenario_event\<lparr>receipt_time := 9\<rparr>) \<and>
   operator_less (scenario_event\<lparr>nonconst_need_copy := False\<rparr>) scenario_event \<and>
   \<not> operator_less scenario_event scenario_event"
  using operator_less_lexicographic
      [of "scenario_event\<lparr>receipt_time := 9\<rparr>"
          "scenario_event\<lparr>message := Some 1, receipt_time := 3\<rparr>"]
    operator_less_lexicographic
      [of "scenario_event\<lparr>message := Some 1, receipt_time := 3\<rparr>"
          "scenario_event\<lparr>receipt_time := 9\<rparr>"]
    operator_less_lexicographic
      [of "scenario_event\<lparr>receipt_time := 3\<rparr>" "scenario_event\<lparr>receipt_time := 9\<rparr>"]
    operator_less_lexicographic
      [of "scenario_event\<lparr>nonconst_need_copy := False\<rparr>" scenario_event]
    operator_less_lexicographic [of scenario_event scenario_event]
  by (simp add: scenario_defs)

text \<open>
  C2. \<open>operator==\<close> as the source has it does not compare the payload pointers: two
  envelopes with different payload pointers and the same time and flag compare equal,
  and an envelope with an empty payload pointer does not compare equal to itself.
\<close>

theorem operator_eq_ignores_left_payload:
  "operator_eq scenario_event (scenario_event\<lparr>message := Some 1\<rparr>) = True \<and>
   message scenario_event \<noteq> message (scenario_event\<lparr>message := Some 1\<rparr>) \<and>
   operator_eq (scenario_event\<lparr>message := None\<rparr>) (scenario_event\<lparr>message := None\<rparr>)
     = False"
  by (simp add: operator_eq_def scenario_defs)

end
